theory Spec2Isabelle
  imports Main "HOL-Library.Sublist"
begin

section \<open>The file-name rule of eslint-plugin-angular (src/rules/file-name.js)\<close>

text \<open>
  The rule derives, from the declared name of an Angular component and the kind of the
  registration call, the file name the component is expected to live in, and reports the
  call when the actual file name differs.

  Conventions of the embedding.
  \<^item> A JavaScript string is a \<open>string\<close> (a list of \<open>char\<close>); a \<open>char\<close> stands for one
    code unit. The case mappings and the character classes act on the ASCII letters,
    the only ones the rule's own patterns \<open>[a-z]\<close> and \<open>[A-Z]\<close> name; every example of
    the rule and every concrete input below is ASCII.
  \<^item> An exception is a value: a function that can throw returns an \<open>outcome\<close>.
  \<^item> The options object is a record whose fields are absent (\<open>None\<close>) or strings.
\<close>

subsection \<open>Outcomes\<close>

datatype error = SyntaxError | TypeError

text \<open>
  \<open>Returns v\<close>: the call returns \<open>v\<close>. \<open>Throws e\<close>: the call throws. \<open>Unmodelled\<close>: the
  call leaves the part of JavaScript this embedding describes (a regular expression
  outside the fragment of \<open>compile_prefix\<close>, a type token that is not a string); nothing
  is stated about the program there.
\<close>

datatype 'a outcome = Returns 'a | Throws error | Unmodelled

fun and_then :: "'a outcome \<Rightarrow> ('a \<Rightarrow> 'b outcome) \<Rightarrow> 'b outcome" where
  "and_then (Returns v) f = f v"
| "and_then (Throws e) f = Throws e"
| "and_then Unmodelled f = Unmodelled"

subsection \<open>Characters and case\<close>

definition is_upper :: "char \<Rightarrow> bool" where
  \<comment> \<open>the class \<open>[A-Z]\<close>\<close>
  "is_upper c = (65 \<le> (of_char c :: nat) \<and> (of_char c :: nat) \<le> 90)"

definition is_lower :: "char \<Rightarrow> bool" where
  \<comment> \<open>the class \<open>[a-z]\<close>\<close>
  "is_lower c = (97 \<le> (of_char c :: nat) \<and> (of_char c :: nat) \<le> 122)"

definition toUpperCase_char :: "char \<Rightarrow> char" where
  "toUpperCase_char c = (if is_lower c then char_of ((of_char c :: nat) - 32) else c)"

definition toLowerCase_char :: "char \<Rightarrow> char" where
  "toLowerCase_char c = (if is_upper c then char_of ((of_char c :: nat) + 32) else c)"

definition toLowerCase :: "string \<Rightarrow> string" where
  "toLowerCase s = map toLowerCase_char s"

subsection \<open>Property lookup on an object literal\<close>

text \<open>
  \<open>separators\<close> and \<open>componentTypeMappings\<close> are object literals, and the rule reads them
  with \<open>table[key]\<close>. Such a read finds the object's own properties first and then the
  properties every object literal inherits from \<open>Object.prototype\<close>: the built-in
  methods, and the accessor \<open>__proto__\<close>, which yields \<open>Object.prototype\<close> itself.
  Any other key gives \<open>undefined\<close>.
\<close>

datatype jsval =
    Undefined
  | Str string
  | NativeFunction string  \<comment> \<open>a built-in function, with its name\<close>
  | ObjectPrototype        \<comment> \<open>the object \<open>Object.prototype\<close>\<close>

definition object_prototype_methods :: "string list" where
  "object_prototype_methods =
     [''constructor'', ''__defineGetter__'', ''__defineSetter__'', ''hasOwnProperty'',
      ''__lookupGetter__'', ''__lookupSetter__'', ''isPrototypeOf'',
      ''propertyIsEnumerable'', ''toString'', ''valueOf'', ''toLocaleString'']"

definition inherited :: "string \<Rightarrow> jsval" where
  "inherited key =
     (if key = ''constructor'' then NativeFunction ''Object''
      else if key \<in> set object_prototype_methods then NativeFunction key
      else if key = ''__proto__'' then ObjectPrototype
      else Undefined)"

definition js_string :: "string option \<Rightarrow> string" where
  \<comment> \<open>an absent option is the value \<open>undefined\<close>, which as a property key and in a
      concatenation is the string "undefined"\<close>
  "js_string k = (case k of None \<Rightarrow> ''undefined'' | Some s \<Rightarrow> s)"

definition to_text :: "jsval \<Rightarrow> string" where
  \<comment> \<open>the string a value contributes to a concatenation with \<open>+\<close>; a built-in function
      is printed the way V8, the engine of Node.js, prints it\<close>
  "to_text v =
     (case v of
        Undefined \<Rightarrow> ''undefined''
      | Str s \<Rightarrow> s
      | NativeFunction n \<Rightarrow> ''function '' @ n @ ''() { [native code] }''
      | ObjectPrototype \<Rightarrow> ''[object Object]'')"

definition truthy :: "jsval \<Rightarrow> bool" where
  "truthy v = (case v of Undefined \<Rightarrow> False | Str s \<Rightarrow> s \<noteq> [] | _ \<Rightarrow> True)"

definition fileEnding :: string where
  "fileEnding = ''.js''"

definition separators :: "string \<Rightarrow> jsval" where
  "separators key =
     (if key = ''dot'' then Str ''.''
      else if key = ''dash'' then Str ''-''
      else if key = ''underscore'' then Str ''_''
      else inherited key)"

definition componentTypeMappings :: "string \<Rightarrow> jsval" where
  "componentTypeMappings key =
     (if key = ''module'' then Str ''module''
      else if key = ''controller'' then Str ''controller''
      else if key = ''directive'' then Str ''directive''
      else if key = ''filter'' then Str ''filter''
      else if key = ''service'' then Str ''service''
      else if key = ''factory'' then Str ''service''
      else if key = ''provider'' then Str ''service''
      else if key = ''value'' then Str ''service''
      else if key = ''constant'' then Str ''constant''
      else inherited key)"

subsection \<open>The options object\<close>

record options =
  nameStyle :: "string option"
  typeSeparator :: "string option"
  ignoreTypeSuffix :: bool
  ignorePrefix :: "string option"

definition no_options :: options where
  \<comment> \<open>the empty object \<open>{}\<close>\<close>
  "no_options = \<lparr>nameStyle = None, typeSeparator = None, ignoreTypeSuffix = False,
                 ignorePrefix = None\<rparr>"

subsection \<open>filenameUtil: firstToUpper, firstToLower, removeTypeSuffix\<close>

definition firstToUpper :: "string \<Rightarrow> string outcome" where
  \<comment> \<open>\<open>value[0]\<close> of the empty string is \<open>undefined\<close>, and calling a method on it throws\<close>
  "firstToUpper v = (case v of [] \<Rightarrow> Throws TypeError | c # cs \<Rightarrow> Returns (toUpperCase_char c # cs))"

definition firstToLower :: "string \<Rightarrow> string outcome" where
  "firstToLower v = (case v of [] \<Rightarrow> Throws TypeError | c # cs \<Rightarrow> Returns (toLowerCase_char c # cs))"

fun indexOf :: "string \<Rightarrow> string \<Rightarrow> int" where
  \<comment> \<open>\<open>s.indexOf(t)\<close>: the least position at which \<open>t\<close> occurs in \<open>s\<close>, or \<open>-1\<close>\<close>
  "indexOf [] t = (if t = [] then 0 else -1)"
| "indexOf (c # cs) t =
     (if prefix t (c # cs) then 0
      else (let r = indexOf cs t in if r < 0 then -1 else r + 1))"

definition removeTypeSuffix :: "string \<Rightarrow> string \<Rightarrow> string outcome" where
  "removeTypeSuffix name type =
     (let nameTypeLengthDiff = int (length name) - int (length type) in
      if nameTypeLengthDiff \<le> 0 then Returns name
      else and_then (firstToUpper type) (\<lambda>typeCamelCase.
        if indexOf name typeCamelCase = nameTypeLengthDiff
        then Returns (take (nat nameTypeLengthDiff) name)
        else Returns name))"

subsection \<open>The regular expression of removePrefix\<close>

text \<open>
  \<open>removePrefix\<close> builds \<open>new RegExp('^' + options.ignorePrefix + '[A-Z]')\<close>: the prefix
  is pasted into the pattern as it is, so its characters are read as regular-expression
  syntax. The embedding covers the following fragment of that syntax (no flags are given,
  so matching is case-sensitive and \<open>^\<close>, \<open>$\<close> are the ends of the input):
  \<^item> a character other than the syntax characters \<open>^ $ \ . * + ? ( ) [ ] { } |\<close> matches
    itself;
  \<^item> \<open>.\<close> matches any one character except a line terminator;
  \<^item> \<open>$\<close> matches at the end of the input, consuming nothing;
  \<^item> a \<open>)\<close> that no \<open>(\<close> opens, a \<open>(\<close> that no \<open>)\<close> can close, and a quantifier
    \<open>*\<close>, \<open>+\<close>, \<open>?\<close> directly after the initial \<open>^\<close> make the pattern invalid: the
    constructor throws a SyntaxError;
  \<^item> any other prefix is outside the fragment.
\<close>

datatype rx_item = Lit char | AnyChar | EndAssert

datatype rx_parse = Parsed "rx_item list" | Invalid | Unsupported

definition backslash :: char where
  "backslash = CHR 0x5C"

definition line_terminator :: "char \<Rightarrow> bool" where
  "line_terminator c = (c = CHR 0x0A \<or> c = CHR 0x0D)"

fun parse_items :: "string \<Rightarrow> rx_parse" where
  "parse_items [] = Parsed []"
| "parse_items (c # cs) =
     (if c = CHR '')'' then Invalid
      else if c = CHR ''('' then (if CHR '')'' \<in> set cs then Unsupported else Invalid)
      else if c \<in> set ''^*+?[]{}|'' \<or> c = backslash then Unsupported
      else (case parse_items cs of
              Parsed items \<Rightarrow>
                Parsed ((if c = CHR ''.'' then AnyChar
                         else if c = CHR ''$'' then EndAssert
                         else Lit c) # items)
            | r \<Rightarrow> r))"

definition compile_prefix :: "string \<Rightarrow> rx_parse" where
  \<comment> \<open>the items between \<open>^\<close> and \<open>[A-Z]\<close> in the pattern \<open>'^' + p + '[A-Z]'\<close>\<close>
  "compile_prefix p =
     (case p of
        [] \<Rightarrow> Parsed []
      | c # cs \<Rightarrow> if c \<in> set ''*+?'' then Invalid else parse_items p)"

fun rx_match :: "rx_item list \<Rightarrow> string \<Rightarrow> bool" where
  \<comment> \<open>whether the items, followed by \<open>[A-Z]\<close>, match at the start of the input\<close>
  "rx_match [] s = (case s of [] \<Rightarrow> False | c # _ \<Rightarrow> is_upper c)"
| "rx_match (Lit a # items) s = (case s of [] \<Rightarrow> False | c # cs \<Rightarrow> c = a \<and> rx_match items cs)"
| "rx_match (AnyChar # items) s =
     (case s of [] \<Rightarrow> False | c # cs \<Rightarrow> \<not> line_terminator c \<and> rx_match items cs)"
| "rx_match (EndAssert # items) s = (s = [] \<and> rx_match items s)"

definition prefix_regexp_test :: "string \<Rightarrow> string \<Rightarrow> bool outcome" where
  \<comment> \<open>\<open>new RegExp('^' + p + '[A-Z]').test(name)\<close>\<close>
  "prefix_regexp_test p name =
     (case compile_prefix p of
        Parsed items \<Rightarrow> Returns (rx_match items name)
      | Invalid \<Rightarrow> Throws SyntaxError
      | Unsupported \<Rightarrow> Unmodelled)"

subsection \<open>filenameUtil: removePrefix, transformComponentName, createExpectedName\<close>

definition removePrefix :: "string \<Rightarrow> options \<Rightarrow> string outcome" where
  \<comment> \<open>with \<open>ignorePrefix\<close> absent the pattern is \<open>^undefined[A-Z]\<close>, and on a match
      \<open>options.ignorePrefix.length\<close> reads a property of \<open>undefined\<close>\<close>
  "removePrefix name opts =
     and_then (prefix_regexp_test (js_string (ignorePrefix opts)) name) (\<lambda>matched.
       if matched
       then (case ignorePrefix opts of
               None \<Rightarrow> Throws TypeError
             | Some p \<Rightarrow> firstToLower (drop (length p) name))
       else Returns name)"

fun replace_boundaries :: "string \<Rightarrow> string \<Rightarrow> string" where
  \<comment> \<open>\<open>name.replace(/([a-z])([A-Z])/g, '$1' + sep + '$2')\<close>: matches are found from left
      to right, and the search resumes after the end of each match\<close>
  "replace_boundaries sep (a # b # rest) =
     (if is_lower a \<and> is_upper b then a # sep @ b # replace_boundaries sep rest
      else a # replace_boundaries sep (b # rest))"
| "replace_boundaries sep s = s"

definition transformComponentName :: "string \<Rightarrow> options \<Rightarrow> string" where
  "transformComponentName name opts =
     (let nameSeparator = separators (js_string (nameStyle opts)) in
      if truthy nameSeparator
      then toLowerCase (replace_boundaries (to_text nameSeparator) name)
      else name)"

definition createExpectedName :: "string \<Rightarrow> string \<Rightarrow> options \<Rightarrow> string outcome" where
  "createExpectedName name type opts =
     (let sep = separators (js_string (typeSeparator opts)) in
      and_then (if ignoreTypeSuffix opts then removeTypeSuffix name type else Returns name)
        (\<lambda>name1.
      and_then (case ignorePrefix opts of
                  None \<Rightarrow> Returns name1
                | Some p \<Rightarrow> if p \<noteq> [] then removePrefix name1 opts else Returns name1)
        (\<lambda>name2.
      let name3 = (case nameStyle opts of
                     None \<Rightarrow> name2
                   | Some st \<Rightarrow> if st \<noteq> [] then transformComponentName name2 opts else name2);
          name4 = (if sep \<noteq> Undefined then name3 @ to_text sep @ type else name3)
      in Returns (name4 @ fileEnding))))"

subsection \<open>The CallExpression handler\<close>

text \<open>
  The handler sees a call node. \<open>utils.isAngularComponent\<close> and \<open>utils.isMemberExpression\<close>
  live in a module that is not part of the sources at hand, so their joint answer is a field
  of the node; the other fields are the parts of the node the handler reads:
  \<open>node.arguments[0].value\<close>, \<open>node.callee.property.name\<close> and \<open>node.callee.object.name\<close>.
  The file name is the base name of the linted file. The handler's effect is the report
  it makes: \<open>None\<close> for no report, \<open>Some e\<close> for the report whose data is the expected
  name \<open>e\<close> (the message \<open>Filename must be "e"\<close>).
\<close>

record call_node =
  angular_component :: bool
  argument_value :: string
  property_name :: string
  object_name :: "string option"

definition CallExpression :: "options \<Rightarrow> string \<Rightarrow> call_node \<Rightarrow> string option outcome" where
  "CallExpression opts filename node =
     (if angular_component node
      then (case componentTypeMappings (property_name node) of
              Undefined \<Rightarrow> Returns None
            | Str type \<Rightarrow>
                if type = ''service'' \<and> object_name node = Some ''$provide'' then Returns None
                else and_then (createExpectedName (argument_value node) type opts)
                       (\<lambda>expectedName.
                          if expectedName \<noteq> filename then Returns (Some expectedName)
                          else Returns None)
            | _ \<Rightarrow> Unmodelled)
      else Returns None)"

section \<open>The specification's reference definitions\<close>

text \<open>
  These follow the words of the specification, not the code; the theorems below compare
  them with the functions of the rule.
\<close>

definition capitalize :: "string \<Rightarrow> string" where
  \<comment> \<open>"capitalize the first letter of typeToken"\<close>
  "capitalize t = (case t of [] \<Rightarrow> [] | c # cs \<Rightarrow> toUpperCase_char c # cs)"

definition stripTypeSuffix_spec :: "string \<Rightarrow> string \<Rightarrow> string" where
  \<comment> \<open>"if name.length <= typeToken.length, return name unchanged. Otherwise ... check
      whether name ends with that capitalized token. If so, return the prefix before that
      position; otherwise return name unchanged."\<close>
  "stripTypeSuffix_spec name typeToken =
     (if length name \<le> length typeToken then name
      else if suffix (capitalize typeToken) name
           then take (length name - length typeToken) name
           else name)"

definition stripPrefix_spec :: "string \<Rightarrow> string \<Rightarrow> string" where
  \<comment> \<open>"only strips when prefixToken is non-empty AND ... the prefix is immediately followed
      by an upper-case letter. On match, remove the prefix and lower-case the new first
      letter", the prefix being a literal string\<close>
  "stripPrefix_spec name prefixToken =
     (if prefixToken \<noteq> [] \<and> prefix prefixToken name
         \<and> (case drop (length prefixToken) name of [] \<Rightarrow> False | c # _ \<Rightarrow> is_upper c)
      then (case drop (length prefixToken) name of
              [] \<Rightarrow> []
            | c # cs \<Rightarrow> toLowerCase_char c # cs)
      else name)"

definition separator_table :: "string option \<Rightarrow> char option" where
  \<comment> \<open>the fixed table \<open>{dash:'-', dot:'.', underscore:'_'}\<close>\<close>
  "separator_table style =
     (if style = Some ''dash'' then Some CHR ''-''
      else if style = Some ''dot'' then Some CHR ''.''
      else if style = Some ''underscore'' then Some CHR ''_''
      else None)"

fun insert_at_boundaries :: "string \<Rightarrow> string \<Rightarrow> string" where
  \<comment> \<open>"insert that character at every lower-to-upper letter boundary"\<close>
  "insert_at_boundaries sep (a # b # rest) =
     (if is_lower a \<and> is_upper b then a # sep @ insert_at_boundaries sep (b # rest)
      else a # insert_at_boundaries sep (b # rest))"
| "insert_at_boundaries sep s = s"

definition convertCase_spec :: "string \<Rightarrow> string option \<Rightarrow> string" where
  \<comment> \<open>"... and lower-case the entire result. If nameStyle is absent or unmapped, return
      name unchanged."\<close>
  "convertCase_spec name style =
     (case separator_table style of
        Some ch \<Rightarrow> toLowerCase (insert_at_boundaries [ch] name)
      | None \<Rightarrow> name)"

subsection \<open>Auxiliary notions for the theorems\<close>

definition syntax_character :: "char \<Rightarrow> bool" where
  \<comment> \<open>the characters with a meaning of their own in a pattern\<close>
  "syntax_character c = (c \<in> set ''^$.*+?()[]{}|'' \<or> c = backslash)"

definition normalizedName :: "string \<Rightarrow> string \<Rightarrow> options \<Rightarrow> string outcome" where
  \<comment> \<open>the name after the first three steps of \<open>createExpectedName\<close>, before the type
      separator and the file ending are appended\<close>
  "normalizedName name type opts =
     and_then (if ignoreTypeSuffix opts then removeTypeSuffix name type else Returns name)
       (\<lambda>name1.
     and_then (case ignorePrefix opts of
                 None \<Rightarrow> Returns name1
               | Some p \<Rightarrow> if p \<noteq> [] then removePrefix name1 opts else Returns name1)
       (\<lambda>name2.
     Returns (case nameStyle opts of
                None \<Rightarrow> name2
              | Some st \<Rightarrow> if st \<noteq> [] then transformComponentName name2 opts else name2)))"

section \<open>Facts about characters and lists\<close>

lemma upper_not_lower: "is_upper c \<Longrightarrow> \<not> is_lower c"
  by (simp add: is_upper_def is_lower_def)

lemma toLowerCase_char_not_upper: "\<not> is_upper (toLowerCase_char c)"
  by (simp add: toLowerCase_char_def is_upper_def)

lemma toLowerCase_char_id: "\<not> is_upper c \<Longrightarrow> toLowerCase_char c = c"
  by (simp add: toLowerCase_char_def)

lemma toLowerCase_fixed_iff: "toLowerCase s = s \<longleftrightarrow> list_all (\<lambda>c. \<not> is_upper c) s"
  by (induction s)
     (auto simp: toLowerCase_def toLowerCase_char_id toLowerCase_char_not_upper
           dest: arg_cong[where f = is_upper])

lemma list_all_not_upper_toLowerCase: "list_all (\<lambda>c. \<not> is_upper c) (toLowerCase s)"
  by (induction s) (simp_all add: toLowerCase_def toLowerCase_char_not_upper)

lemma nat_int_diff: "nat (int a - int b) = a - b"
  by arith

lemma prefix_same_length: "prefix xs ys \<Longrightarrow> length ys = length xs \<Longrightarrow> ys = xs"
  by (auto simp: prefix_def)

section \<open>Stripping the type suffix\<close>

lemma removeTypeSuffix_cases:
  "removeTypeSuffix name (t # ts) =
     (if length name \<le> Suc (length ts) then Returns name
      else if indexOf name (toUpperCase_char t # ts) = int (length name) - int (Suc (length ts))
           then Returns (take (length name - Suc (length ts)) name)
           else Returns name)"
proof -
  have "nat (int (length name) - int (length (t # ts))) = length name - Suc (length ts)"
    by (simp only: nat_int_diff list.size)
  then show ?thesis
    by (simp add: removeTypeSuffix_def firstToUpper_def Let_def)
qed

text \<open>Every type token of the kind table is a non-empty string.\<close>

lemma type_tokens_nonempty: "componentTypeMappings kind = Str type \<Longrightarrow> type \<noteq> []"
  by (auto simp: componentTypeMappings_def inherited_def split: if_splits)

lemma removeTypeSuffix_returns: "type \<noteq> [] \<Longrightarrow> \<exists>r. removeTypeSuffix name type = Returns r"
  by (cases type) (simp_all add: removeTypeSuffix_cases)

text \<open>The guard on the lengths: a name no longer than the type token is returned as it is.\<close>

lemma removeTypeSuffix_short:
  "length name \<le> length type \<Longrightarrow> removeTypeSuffix name type = Returns name"
  by (simp add: removeTypeSuffix_def)

text \<open>\<open>indexOf\<close> gives a position at which the searched string does occur.\<close>

lemma indexOf_sound: "indexOf s t = int k \<Longrightarrow> prefix t (drop k s)"
proof (induction s arbitrary: k)
  case Nil
  then show ?case by (simp split: if_splits)
next
  case (Cons c cs)
  show ?case
  proof (cases "prefix t (c # cs)")
    case True
    with Cons.prems show ?thesis by simp
  next
    case False
    with Cons.prems obtain j where "indexOf cs t = int j" "k = Suc j"
      by (cases k) (auto simp: Let_def split: if_splits)
    with Cons.IH show ?thesis by simp
  qed
qed

text \<open>
  One half of the specification's description holds: whenever the code strips, the name
  does end with the capitalized token, and the result is the one the specification names.
\<close>

lemma removeTypeSuffix_strips_suffix:
  assumes "type \<noteq> []" and "removeTypeSuffix name type = Returns r" and "r \<noteq> name"
  shows "r = stripTypeSuffix_spec name type"
proof -
  from assms(1) obtain t ts where ty: "type = t # ts" by (cases type) auto
  let ?cap = "toUpperCase_char t # ts"
  let ?k = "length name - Suc (length ts)"
  from assms(2,3) have long: "\<not> length name \<le> Suc (length ts)"
    and ix: "indexOf name ?cap = int (length name) - int (Suc (length ts))"
    and r: "r = take ?k name"
    by (auto simp: ty removeTypeSuffix_cases split: if_splits)
  from long ix have "indexOf name ?cap = int ?k" by simp
  then have "prefix ?cap (drop ?k name)" by (rule indexOf_sound)
  moreover from long have "length (drop ?k name) = length ?cap" by simp
  ultimately have "drop ?k name = ?cap"
    by (rule prefix_same_length)
  then have "suffix ?cap name"
    by (metis suffix_drop)
  with long r show ?thesis
    by (simp add: stripTypeSuffix_spec_def ty capitalize_def)
qed

text \<open>
  Claim C1. The specification has \<open>removeTypeSuffix\<close> strip whenever the name is longer than
  the type token and ends with the capitalized token, also when the capitalized token
  occurs earlier in the name. The code compares the position of the first occurrence
  (\<open>indexOf\<close>) with the position of the suffix, so it does not strip a name in which the
  capitalized token occurs twice: "ServiceLocatorService" ends with "Service" and is
  returned unchanged, where the reference definition gives "ServiceLocator".
\<close>

theorem C1_removeTypeSuffix_first_occurrence:
  "removeTypeSuffix ''ServiceLocatorService'' ''service'' = Returns ''ServiceLocatorService'' \<and>
   indexOf ''ServiceLocatorService'' ''Service'' = 0 \<and>
   suffix ''Service'' ''ServiceLocatorService'' \<and>
   stripTypeSuffix_spec ''ServiceLocatorService'' ''service'' = ''ServiceLocator''"
  by code_simp



section \<open>Stripping the prefix\<close>

lemma parse_items_literal:
  "list_all (\<lambda>c. \<not> syntax_character c) p \<Longrightarrow> parse_items p = Parsed (map Lit p)"
  by (induction p) (auto simp: syntax_character_def)

lemma compile_prefix_literal:
  "list_all (\<lambda>c. \<not> syntax_character c) p \<Longrightarrow> compile_prefix p = Parsed (map Lit p)"
  by (cases p)
     (auto simp: compile_prefix_def parse_items_literal syntax_character_def
           simp del: parse_items.simps)

lemma rx_match_literal:
  "rx_match (map Lit p) name =
     (prefix p name \<and> (case drop (length p) name of [] \<Rightarrow> False | c # _ \<Rightarrow> is_upper c))"
  by (induction p arbitrary: name) (auto split: list.splits)

text \<open>
  For a prefix without syntax characters the pattern is the literal prefix, and the code is
  the reference definition of the specification.
\<close>

lemma removePrefix_literal:
  assumes "list_all (\<lambda>c. \<not> syntax_character c) p" and "p \<noteq> []"
    and "ignorePrefix opts = Some p"
  shows "removePrefix name opts = Returns (stripPrefix_spec name p)"
  using assms
  by (auto simp: removePrefix_def prefix_regexp_test_def compile_prefix_literal js_string_def
        rx_match_literal stripPrefix_spec_def firstToLower_def
      split: list.splits)

lemma removePrefix_examples:
  "removePrefix ''staging'' (no_options\<lparr>ignorePrefix := Some ''st''\<rparr>) = Returns ''staging''"
  "removePrefix ''stAppUtils'' (no_options\<lparr>ignorePrefix := Some ''st''\<rparr>) = Returns ''appUtils''"
  by code_simp+

text \<open>
  Claim C3. The specification has \<open>removePrefix\<close> treat the prefix as a literal string. The
  code pastes it into a regular expression, where \<open>.\<close> stands for any character and \<open>$\<close>
  for the end of the input. With the prefix "app." the name "appsCore", which does not
  begin with "app.", loses its first four characters; with the prefix "$" the name
  "$Http", which begins with "$" followed by an upper-case letter, is returned unchanged.
  The reference definition gives "appsCore" and "http".
\<close>

theorem C3_removePrefix_reads_pattern:
  "removePrefix ''appsCore'' (no_options\<lparr>ignorePrefix := Some ''app.''\<rparr>) = Returns ''core'' \<and>
   stripPrefix_spec ''appsCore'' ''app.'' = ''appsCore'' \<and>
   removePrefix ''$Http'' (no_options\<lparr>ignorePrefix := Some ''$''\<rparr>) = Returns ''$Http'' \<and>
   stripPrefix_spec ''$Http'' ''$'' = ''http''"
  by code_simp

section \<open>Case conversion\<close>

lemma replace_boundaries_no_upper:
  "list_all (\<lambda>c. \<not> is_upper c) s \<Longrightarrow> replace_boundaries sep s = s"
  by (induction sep s rule: replace_boundaries.induct) auto

lemma replace_boundaries_upper_head:
  "is_upper b \<Longrightarrow> replace_boundaries sep (b # rest) = b # replace_boundaries sep rest"
  by (cases rest) (simp_all add: upper_not_lower)

text \<open>
  The global replace resumes after each match, the insertion of the specification looks at
  every adjacent pair; the two agree, because the upper-case letter that ends a match
  cannot begin the next one.
\<close>

lemma replace_boundaries_eq_insert:
  "replace_boundaries sep s = insert_at_boundaries sep s"
  by (induction sep s rule: insert_at_boundaries.induct)
     (simp_all add: replace_boundaries_upper_head)

text \<open>
  For every style whose key is not the name of an inherited property, the code is the
  reference definition of the specification.
\<close>

lemma transformComponentName_refines:
  "inherited (js_string (nameStyle opts)) = Undefined \<Longrightarrow>
   transformComponentName name opts = convertCase_spec name (nameStyle opts)"
  by (cases "nameStyle opts")
     (auto simp: transformComponentName_def convertCase_spec_def separator_table_def
        separators_def js_string_def truthy_def to_text_def Let_def
        replace_boundaries_eq_insert)

text \<open>
  Claim C6. The specification has \<open>transformComponentName\<close> return the name unchanged for
  every style that the table \<open>{dash, dot, underscore}\<close> does not map. The code reads
  \<open>separators[nameStyle]\<close> and tests the value for truthiness only; for the style
  "constructor" the read finds the function \<open>Object\<close> that every object inherits, and the
  text of that function is inserted at the boundary and the whole lower-cased. The
  reference definition leaves "myTab" unchanged.
\<close>

theorem C6_transformComponentName_inherited_style:
  "transformComponentName ''myTab'' (no_options\<lparr>nameStyle := Some ''constructor''\<rparr>) =
     ''myfunction object() { [native code] }tab'' \<and>
   convertCase_spec ''myTab'' (Some ''constructor'') = ''myTab''"
  by code_simp

lemma transformComponentName_lower:
  "toLowerCase name = name \<Longrightarrow> transformComponentName name opts = name"
  by (simp add: transformComponentName_def Let_def replace_boundaries_no_upper
      flip: toLowerCase_fixed_iff)

lemma transformComponentName_result_lower:
  "truthy (separators (js_string (nameStyle opts))) \<Longrightarrow>
   toLowerCase (transformComponentName name opts) = transformComponentName name opts"
  by (simp add: transformComponentName_def Let_def toLowerCase_fixed_iff
      list_all_not_upper_toLowerCase)

text \<open>
  Claim C7. A name that is already fully lower-case is left unchanged by
  \<open>transformComponentName\<close>, whatever the style; and converting twice with the same
  options gives the same name as converting once.
\<close>

theorem C7_transformComponentName_idempotent:
  "(toLowerCase name = name \<longrightarrow> transformComponentName name opts = name) \<and>
   transformComponentName (transformComponentName name opts) opts =
     transformComponentName name opts"
proof (cases "truthy (separators (js_string (nameStyle opts)))")
  case True
  then show ?thesis
    using transformComponentName_result_lower[OF True, of name]
    by (simp add: transformComponentName_lower)
next
  case False
  then show ?thesis
    by (simp add: transformComponentName_def Let_def)
qed

theorem C7_transformComponentName_idempotent_witness:
  "toLowerCase ''my_tab'' = ''my_tab'' \<and>
   transformComponentName ''my_tab'' (no_options\<lparr>nameStyle := Some ''underscore''\<rparr>) = ''my_tab'' \<and>
   transformComponentName
     (transformComponentName ''myTab'' (no_options\<lparr>nameStyle := Some ''underscore''\<rparr>))
     (no_options\<lparr>nameStyle := Some ''underscore''\<rparr>) = ''my_tab''"
proof -
  have lower: "toLowerCase ''my_tab'' = ''my_tab''"
    by code_simp
  have once:
    "transformComponentName ''myTab'' (no_options\<lparr>nameStyle := Some ''underscore''\<rparr>) = ''my_tab''"
    by code_simp
  show ?thesis
    using lower once
      C7_transformComponentName_idempotent
        [of "''my_tab''" "no_options\<lparr>nameStyle := Some ''underscore''\<rparr>"]
      C7_transformComponentName_idempotent
        [of "''myTab''" "no_options\<lparr>nameStyle := Some ''underscore''\<rparr>"]
    by simp
qed

section \<open>Building the expected name\<close>

lemma createExpectedName_steps:
  "createExpectedName name type opts =
     and_then (normalizedName name type opts) (\<lambda>n.
       Returns (case separators (js_string (typeSeparator opts)) of
                  Undefined \<Rightarrow> n @ fileEnding
                | v \<Rightarrow> n @ to_text v @ type @ fileEnding))"
proof (cases "if ignoreTypeSuffix opts then removeTypeSuffix name type else Returns name")
  case (Returns name1)
  then show ?thesis
    by (cases "case ignorePrefix opts of
                 None \<Rightarrow> Returns name1
               | Some p \<Rightarrow> if p \<noteq> [] then removePrefix name1 opts else Returns name1")
       (simp_all add: createExpectedName_def normalizedName_def Let_def split: jsval.splits)
qed (simp_all add: createExpectedName_def normalizedName_def Let_def)

text \<open>
  For every type separator whose key is not the name of an inherited property, the expected
  name is composed as the specification says: the normalized name, then the separator
  character and the type token if the table maps the key, then the file ending.
\<close>

lemma createExpectedName_separator:
  assumes "inherited (js_string (typeSeparator opts)) = Undefined"
  shows "createExpectedName name type opts =
     and_then (normalizedName name type opts) (\<lambda>n.
       Returns (case separator_table (typeSeparator opts) of
                  Some ch \<Rightarrow> n @ [ch] @ type @ fileEnding
                | None \<Rightarrow> n @ fileEnding))"
proof -
  have "(case separators (js_string (typeSeparator opts)) of
           Undefined \<Rightarrow> n @ fileEnding
         | v \<Rightarrow> n @ to_text v @ type @ fileEnding) =
        (case separator_table (typeSeparator opts) of
           Some ch \<Rightarrow> n @ [ch] @ type @ fileEnding
         | None \<Rightarrow> n @ fileEnding)" for n
    using assms
    by (cases "typeSeparator opts")
       (auto simp: separators_def separator_table_def js_string_def to_text_def)
  then show ?thesis
    by (simp add: createExpectedName_steps)
qed

lemma createExpectedName_examples:
  "createExpectedName ''myFilter'' ''filter'' no_options = Returns ''myFilter.js''"
  "createExpectedName ''myFilter'' ''filter'' (no_options\<lparr>typeSeparator := Some ''dot''\<rparr>) =
     Returns ''myFilter.filter.js''"
  "createExpectedName ''AvengersController'' ''controller''
     (no_options\<lparr>typeSeparator := Some ''dot'', ignoreTypeSuffix := True\<rparr>) =
     Returns ''Avengers.controller.js''"
  by code_simp+

text \<open>
  Claim C4. The specification has the expected name be the normalized name and the file
  ending only, for every type separator that the table \<open>{dash, dot, underscore}\<close> does not
  map. The code reads \<open>separators[options.typeSeparator]\<close> and appends whatever is not
  \<open>undefined\<close>; for the key "constructor" the read finds the function \<open>Object\<close> that every
  object inherits, and for "__proto__" the prototype object, and their texts and the type
  token are appended.
\<close>

theorem C4_createExpectedName_inherited_separator:
  "createExpectedName ''myFilter'' ''filter'' (no_options\<lparr>typeSeparator := Some ''constructor''\<rparr>) =
     Returns ''myFilterfunction Object() { [native code] }filter.js'' \<and>
   createExpectedName ''myFilter'' ''filter'' (no_options\<lparr>typeSeparator := Some ''__proto__''\<rparr>) =
     Returns ''myFilter[object Object]filter.js'' \<and>
   separator_table (Some ''constructor'') = None \<and>
   separator_table (Some ''__proto__'') = None"
  by code_simp

text \<open>
  With a non-empty type token, and a prefix to ignore that is absent or free of syntax
  characters, every step returns, and so does \<open>createExpectedName\<close>.
\<close>

lemma normalizedName_returns:
  assumes "type \<noteq> []"
    and "case ignorePrefix opts of
           None \<Rightarrow> True
         | Some p \<Rightarrow> list_all (\<lambda>c. \<not> syntax_character c) p"
  shows "\<exists>n. normalizedName name type opts = Returns n"
proof -
  obtain name1 where n1:
    "(if ignoreTypeSuffix opts then removeTypeSuffix name type else Returns name) = Returns name1"
    using removeTypeSuffix_returns[OF assms(1), of name]
    by (cases "ignoreTypeSuffix opts") auto
  have "\<exists>name2.
          (case ignorePrefix opts of
             None \<Rightarrow> Returns name1
           | Some p \<Rightarrow> if p \<noteq> [] then removePrefix name1 opts else Returns name1) =
          Returns name2"
  proof (cases "ignorePrefix opts")
    case None
    then show ?thesis by simp
  next
    case (Some p)
    with assms(2) have "list_all (\<lambda>c. \<not> syntax_character c) p" by simp
    with Some show ?thesis
      by (simp add: removePrefix_literal)
  qed
  then obtain name2 where n2:
    "(case ignorePrefix opts of
        None \<Rightarrow> Returns name1
      | Some p \<Rightarrow> if p \<noteq> [] then removePrefix name1 opts else Returns name1) =
     Returns name2"
    by blast
  show ?thesis
    unfolding normalizedName_def n1 and_then.simps n2 by simp
qed

lemma createExpectedName_returns:
  assumes "type \<noteq> []"
    and "case ignorePrefix opts of
           None \<Rightarrow> True
         | Some p \<Rightarrow> list_all (\<lambda>c. \<not> syntax_character c) p"
  shows "\<exists>r. createExpectedName name type opts = Returns r"
  using normalizedName_returns[OF assms, of name]
  by (auto simp: createExpectedName_steps)

text \<open>
  Claim C2. The specification has \<open>createExpectedName\<close> return a string for every name, type
  token and policy. The code throws when the prefix to ignore is not a valid piece of a
  regular expression: with the prefix "(" the pattern is \<open>^([A-Z]\<close>, a group that is never
  closed, and with the prefix "*" it is \<open>^*[A-Z]\<close>, a quantifier with nothing to repeat;
  the constructor \<open>RegExp\<close> throws a SyntaxError on both.
\<close>

theorem C2_createExpectedName_throws:
  "createExpectedName ''myFilter'' ''filter'' (no_options\<lparr>ignorePrefix := Some ''(''\<rparr>) =
     Throws SyntaxError \<and>
   createExpectedName ''myFilter'' ''filter'' (no_options\<lparr>ignorePrefix := Some ''*''\<rparr>) =
     Throws SyntaxError"
  by code_simp

section \<open>The handler\<close>

text \<open>
  Claim C5. A call whose property name maps to the type token "service" (service, factory,
  provider, value) and whose object is named "$provide" is never reported, whatever the
  file name and the options: the handler returns before it computes an expected name, so
  it returns also under options with which \<open>createExpectedName\<close> throws.
\<close>

theorem C5_provide_services_skipped:
  "property_name node \<in> set [''service'', ''factory'', ''provider'', ''value''] \<Longrightarrow>
   object_name node = Some ''$provide'' \<Longrightarrow>
   CallExpression opts filename node = Returns None"
  by (auto simp: CallExpression_def componentTypeMappings_def)

theorem C5_provide_services_skipped_witness:
  "CallExpression (no_options\<lparr>ignorePrefix := Some ''(''\<rparr>) ''myApp.module.js''
     \<lparr>angular_component = True, argument_value = ''accountsService'',
      property_name = ''value'', object_name = Some ''$provide''\<rparr> = Returns None \<and>
   createExpectedName ''accountsService'' ''service'' (no_options\<lparr>ignorePrefix := Some ''(''\<rparr>) =
     Throws SyntaxError"
proof -
  have throws:
    "createExpectedName ''accountsService'' ''service'' (no_options\<lparr>ignorePrefix := Some ''(''\<rparr>) =
       Throws SyntaxError"
    by code_simp
  show ?thesis
    using throws
      C5_provide_services_skipped
        [of "\<lparr>angular_component = True, argument_value = ''accountsService'',
              property_name = ''value'', object_name = Some ''$provide''\<rparr>"
            "no_options\<lparr>ignorePrefix := Some ''(''\<rparr>" "''myApp.module.js''"]
    by simp
qed

text \<open>
  Claim C8. The kind table maps module, controller, directive, filter, service and
  constant to themselves and factory, provider and value to "service". Hence a declaration
  of kind service, factory, provider or value (not made on "$provide") is checked against
  the name built with the type token "service": the handler's outcome is the comparison of
  \<open>createExpectedName name "service" options\<close> with the file name, the same for the
  four kinds, under every file name and all options. For "someUtil" with the type
  separator "dash", declared as a factory, a provider or a value, the expected name that
  the handler reports against another file name is "someUtil-service.js".
\<close>

theorem C8_service_kinds_collapse:
  "componentTypeMappings ''module'' = Str ''module'' \<and>
   componentTypeMappings ''controller'' = Str ''controller'' \<and>
   componentTypeMappings ''directive'' = Str ''directive'' \<and>
   componentTypeMappings ''filter'' = Str ''filter'' \<and>
   componentTypeMappings ''service'' = Str ''service'' \<and>
   componentTypeMappings ''factory'' = Str ''service'' \<and>
   componentTypeMappings ''provider'' = Str ''service'' \<and>
   componentTypeMappings ''value'' = Str ''service'' \<and>
   componentTypeMappings ''constant'' = Str ''constant'' \<and>
   (angular_component node \<and>
    property_name node \<in> set [''service'', ''factory'', ''provider'', ''value''] \<and>
    object_name node \<noteq> Some ''$provide'' \<longrightarrow>
    CallExpression opts filename node =
      (case createExpectedName (argument_value node) ''service'' opts of
         Returns expected \<Rightarrow> Returns (if expected = filename then None else Some expected)
       | Throws e \<Rightarrow> Throws e
       | Unmodelled \<Rightarrow> Unmodelled)) \<and>
   CallExpression opts filename (node\<lparr>property_name := ''factory''\<rparr>) =
     CallExpression opts filename (node\<lparr>property_name := ''service''\<rparr>) \<and>
   CallExpression opts filename (node\<lparr>property_name := ''provider''\<rparr>) =
     CallExpression opts filename (node\<lparr>property_name := ''service''\<rparr>) \<and>
   CallExpression opts filename (node\<lparr>property_name := ''value''\<rparr>) =
     CallExpression opts filename (node\<lparr>property_name := ''service''\<rparr>) \<and>
   CallExpression (no_options\<lparr>typeSeparator := Some ''dash''\<rparr>) ''utils.js''
     \<lparr>angular_component = True, argument_value = ''someUtil'', property_name = ''factory'',
      object_name = Some ''app''\<rparr> = Returns (Some ''someUtil-service.js'') \<and>
   CallExpression (no_options\<lparr>typeSeparator := Some ''dash''\<rparr>) ''utils.js''
     \<lparr>angular_component = True, argument_value = ''someUtil'', property_name = ''provider'',
      object_name = Some ''app''\<rparr> = Returns (Some ''someUtil-service.js'') \<and>
   CallExpression (no_options\<lparr>typeSeparator := Some ''dash''\<rparr>) ''utils.js''
     \<lparr>angular_component = True, argument_value = ''someUtil'', property_name = ''value'',
      object_name = Some ''app''\<rparr> = Returns (Some ''someUtil-service.js'') \<and>
   CallExpression (no_options\<lparr>typeSeparator := Some ''dash''\<rparr>) ''someUtil-service.js''
     \<lparr>angular_component = True, argument_value = ''someUtil'', property_name = ''factory'',
      object_name = Some ''app''\<rparr> = Returns None"
proof -
  have table:
    "componentTypeMappings ''module'' = Str ''module''"
    "componentTypeMappings ''controller'' = Str ''controller''"
    "componentTypeMappings ''directive'' = Str ''directive''"
    "componentTypeMappings ''filter'' = Str ''filter''"
    "componentTypeMappings ''service'' = Str ''service''"
    "componentTypeMappings ''factory'' = Str ''service''"
    "componentTypeMappings ''provider'' = Str ''service''"
    "componentTypeMappings ''value'' = Str ''service''"
    "componentTypeMappings ''constant'' = Str ''constant''"
    by (simp_all add: componentTypeMappings_def)
  have build: "CallExpression opts filename node =
      (case createExpectedName (argument_value node) ''service'' opts of
         Returns expected \<Rightarrow> Returns (if expected = filename then None else Some expected)
       | Throws e \<Rightarrow> Throws e
       | Unmodelled \<Rightarrow> Unmodelled)"
    if "angular_component node"
      and "property_name node \<in> set [''service'', ''factory'', ''provider'', ''value'']"
      and "object_name node \<noteq> Some ''$provide''"
  proof -
    from that(2) have "componentTypeMappings (property_name node) = Str ''service''"
      using table by auto
    with that(1,3) show ?thesis
      by (cases "createExpectedName (argument_value node) ''service'' opts")
         (simp_all add: CallExpression_def)
  qed
  have same:
    "CallExpression opts filename (node\<lparr>property_name := ''factory''\<rparr>) =
       CallExpression opts filename (node\<lparr>property_name := ''service''\<rparr>)"
    "CallExpression opts filename (node\<lparr>property_name := ''provider''\<rparr>) =
       CallExpression opts filename (node\<lparr>property_name := ''service''\<rparr>)"
    "CallExpression opts filename (node\<lparr>property_name := ''value''\<rparr>) =
       CallExpression opts filename (node\<lparr>property_name := ''service''\<rparr>)"
    using table by (simp_all add: CallExpression_def)
  have examples:
    "CallExpression (no_options\<lparr>typeSeparator := Some ''dash''\<rparr>) ''utils.js''
       \<lparr>angular_component = True, argument_value = ''someUtil'', property_name = ''factory'',
        object_name = Some ''app''\<rparr> = Returns (Some ''someUtil-service.js'')"
    "CallExpression (no_options\<lparr>typeSeparator := Some ''dash''\<rparr>) ''utils.js''
       \<lparr>angular_component = True, argument_value = ''someUtil'', property_name = ''provider'',
        object_name = Some ''app''\<rparr> = Returns (Some ''someUtil-service.js'')"
    "CallExpression (no_options\<lparr>typeSeparator := Some ''dash''\<rparr>) ''utils.js''
       \<lparr>angular_component = True, argument_value = ''someUtil'', property_name = ''value'',
        object_name = Some ''app''\<rparr> = Returns (Some ''someUtil-service.js'')"
    "CallExpression (no_options\<lparr>typeSeparator := Some ''dash''\<rparr>) ''someUtil-service.js''
       \<lparr>angular_component = True, argument_value = ''someUtil'', property_name = ''factory'',
        object_name = Some ''app''\<rparr> = Returns None"
    by code_simp+
  show ?thesis
    using table build same examples by blast
qed

theorem C8_service_kinds_collapse_witness:
  "CallExpression (no_options\<lparr>typeSeparator := Some ''dot''\<rparr>) ''helpers.js''
     \<lparr>angular_component = True, argument_value = ''someUtil'', property_name = ''provider'',
      object_name = Some ''app''\<rparr> = Returns (Some ''someUtil.service.js'') \<and>
   CallExpression (no_options\<lparr>typeSeparator := Some ''dot''\<rparr>) ''someUtil.service.js''
     \<lparr>angular_component = True, argument_value = ''someUtil'', property_name = ''value'',
      object_name = None\<rparr> = Returns None"
proof -
  let ?opts = "no_options\<lparr>typeSeparator := Some ''dot''\<rparr>"
  let ?provider = "\<lparr>angular_component = True, argument_value = ''someUtil'',
                    property_name = ''provider'', object_name = Some ''app''\<rparr>"
  let ?val = "\<lparr>angular_component = True, argument_value = ''someUtil'',
               property_name = ''value'', object_name = None\<rparr>"
  have expected:
    "createExpectedName ''someUtil'' ''service'' ?opts = Returns ''someUtil.service.js''"
    by code_simp
  show ?thesis
    using expected
      C8_service_kinds_collapse[of ?provider ?opts "''helpers.js''"]
      C8_service_kinds_collapse[of ?val ?opts "''someUtil.service.js''"]
    by simp
qed

text \<open>
  Claim C9. For a call that is a component declaration, whose property name the kind table
  maps to a type token and which is not a service on "$provide", the handler compares the
  expected name with the file name by equality of strings: it makes no report exactly when
  they are equal, and otherwise its report carries the expected name. (If building the
  expected name throws, so does the handler.) For the filter "myFilter" in the file
  "filters.js" with no options, the report carries "myFilter.js".
\<close>

theorem C9_report_iff_mismatch:
  "(angular_component node \<and> componentTypeMappings (property_name node) = Str type \<and>
    \<not> (type = ''service'' \<and> object_name node = Some ''$provide'') \<longrightarrow>
    CallExpression opts filename node =
      (case createExpectedName (argument_value node) type opts of
         Returns expected \<Rightarrow> Returns (if expected = filename then None else Some expected)
       | Throws e \<Rightarrow> Throws e
       | Unmodelled \<Rightarrow> Unmodelled)) \<and>
   CallExpression no_options ''filters.js''
     \<lparr>angular_component = True, argument_value = ''myFilter'', property_name = ''filter'',
      object_name = Some ''app''\<rparr> = Returns (Some ''myFilter.js'')"
proof -
  have example: "CallExpression no_options ''filters.js''
     \<lparr>angular_component = True, argument_value = ''myFilter'', property_name = ''filter'',
      object_name = Some ''app''\<rparr> = Returns (Some ''myFilter.js'')"
    by code_simp
  have general: "CallExpression opts filename node =
      (case createExpectedName (argument_value node) type opts of
         Returns expected \<Rightarrow> Returns (if expected = filename then None else Some expected)
       | Throws e \<Rightarrow> Throws e
       | Unmodelled \<Rightarrow> Unmodelled)"
    if "angular_component node" "componentTypeMappings (property_name node) = Str type"
       "\<not> (type = ''service'' \<and> object_name node = Some ''$provide'')"
    using that
    by (cases "createExpectedName (argument_value node) type opts")
       (auto simp: CallExpression_def)
  show ?thesis using example general by blast
qed

theorem C9_report_iff_mismatch_witness:
  "CallExpression (no_options\<lparr>typeSeparator := Some ''dot''\<rparr>) ''myFilter.filter.js''
     \<lparr>angular_component = True, argument_value = ''myFilter'', property_name = ''filter'',
      object_name = Some ''app''\<rparr> = Returns None \<and>
   CallExpression (no_options\<lparr>typeSeparator := Some ''dot''\<rparr>) ''myFilter.js''
     \<lparr>angular_component = True, argument_value = ''myFilter'', property_name = ''filter'',
      object_name = Some ''app''\<rparr> = Returns (Some ''myFilter.filter.js'')"
proof -
  let ?node = "\<lparr>angular_component = True, argument_value = ''myFilter'',
                property_name = ''filter'', object_name = Some ''app''\<rparr>"
  let ?opts = "no_options\<lparr>typeSeparator := Some ''dot''\<rparr>"
  have kind: "componentTypeMappings (property_name ?node) = Str ''filter''"
    by (simp add: componentTypeMappings_def)
  have expected:
    "createExpectedName (argument_value ?node) ''filter'' ?opts = Returns ''myFilter.filter.js''"
    by code_simp
  show ?thesis
    using kind expected
      C9_report_iff_mismatch[of ?node "''filter''" ?opts "''myFilter.filter.js''"]
      C9_report_iff_mismatch[of ?node "''filter''" ?opts "''myFilter.js''"]
    by simp
qed

end
